theory Spec2Isabelle
  imports Complex_Main
begin

section \<open>Data model\<close>

text \<open>
  The inheritance valuation of the financial simulator lives in the React component
  \<^verbatim>\<open>InheritanceCalculator\<close>. Its inputs are the types of the frontend's
  \<^verbatim>\<open>types\<close> module. JavaScript numbers are modelled as follows: calendar years, ages
  and the number of heirs are \<open>int\<close>, money amounts and rates are \<open>real\<close>. The
  inputs are therefore finite numbers, and the rounding of IEEE doubles is abstracted:
  a product, a sum or a quotient is the exact one. An optional field
  (\<^verbatim>\<open>spouse_birth_year?: number\<close>) is an \<open>option\<close>, \<open>None\<close> standing for
  \<^verbatim>\<open>undefined\<close>. A \<^verbatim>\<open>Record<string, number>\<close> is the association list of its
  own properties, in the order of \<^verbatim>\<open>Object.entries\<close>. A JavaScript object holds
  each key once; no result below needs that, and a lookup reads the first entry of a
  key.
\<close>

record UserProfile =
  birth_year :: int
  life_expectancy :: int
  retirement_age :: int
  spouse_birth_year :: "int option"

text \<open>
  Pensions and the rows of the two valuation tables all carry a \<^verbatim>\<open>name\<close>; the
  field is declared once and the other records extend it.
\<close>

record named =
  name :: string

record Pension = named +
  pension_id :: "string option"
  currency :: string
  monthly_amount_estimated :: real
  start_age :: int
  is_inflation_adjusted :: bool

record SimulationResult =
  year :: int
  age :: int
  total_assets :: real
  pension_incomes :: "(string \<times> real) list"
  asset_balances :: "(string \<times> real) list option"
  asset_drawdowns :: "(string \<times> real) list option"

text \<open>
  What a property access \<^verbatim>\<open>obj[key]\<close> on such a record can yield: nothing, a
  number of the record itself, or one of the functions and objects that every object
  inherits from \<^verbatim>\<open>Object.prototype\<close>.
\<close>

datatype jsval = Undefined | Number real | Inherited

text \<open>
  The numbers the component computes: a finite number, or \<^verbatim>\<open>NaN\<close>, which
  arithmetic on a value that is not a number produces and every later operation keeps.
\<close>

datatype jsnum = Fin real | NaN

instantiation jsnum :: comm_monoid_add
begin

definition zero_jsnum :: jsnum where
  "zero_jsnum = Fin 0"

definition plus_jsnum :: "jsnum \<Rightarrow> jsnum \<Rightarrow> jsnum" where
  "plus_jsnum a b =
     (case a of NaN \<Rightarrow> NaN | Fin x \<Rightarrow> (case b of NaN \<Rightarrow> NaN | Fin y \<Rightarrow> Fin (x + y)))"

instance
proof
  fix a b c :: jsnum
  show "a + b + c = a + (b + c)"
    by (simp add: plus_jsnum_def split: jsnum.splits)
  show "a + b = b + a"
    by (simp add: plus_jsnum_def split: jsnum.splits)
  show "0 + a = a"
    by (simp add: plus_jsnum_def zero_jsnum_def split: jsnum.splits)
qed

end

instantiation jsnum :: times
begin

definition times_jsnum :: "jsnum \<Rightarrow> jsnum \<Rightarrow> jsnum" where
  "times_jsnum a b =
     (case a of NaN \<Rightarrow> NaN | Fin x \<Rightarrow> (case b of NaN \<Rightarrow> NaN | Fin y \<Rightarrow> Fin (x * y)))"

instance ..

end

record valuation = named +
  valuationUSD :: jsnum
  valuationJPY :: jsnum

record pension_valuation = valuation +
  annualAmountUSD :: jsval

record asset_valuation = valuation +
  balanceUSD :: real

text \<open>The error taxonomy of the specification.\<close>

datatype error = InvalidInput | NotFound | PersistenceFailure

text \<open>
  What the component renders: the parameter panel (the PV factor as the number that
  \<^verbatim>\<open>toFixed(3)\<close> then formats), the two tables and the JPY totals.
\<close>

record report =
  shown_spouse_age :: int
  shown_remaining_years :: int
  shown_pv_factor :: real
  exemption_limit :: int
  rows_pension :: "pension_valuation list"
  subtotal_pension_JPY :: jsnum
  rows_asset :: "asset_valuation list"
  subtotal_asset_JPY :: jsnum
  grand_total_JPY :: jsnum

section \<open>The computation of \<^verbatim>\<open>InheritanceCalculator\<close>\<close>

text \<open>
  \<^verbatim>\<open>a || b\<close> on a value that is a number or \<^verbatim>\<open>undefined\<close>: the left operand
  is falsy when it is \<^verbatim>\<open>undefined\<close> or \<open>0\<close>.
\<close>

definition js_or :: "'a::zero option \<Rightarrow> 'a \<Rightarrow> 'a" where
  "js_or a b = (case a of None \<Rightarrow> b | Some v \<Rightarrow> if v = 0 then b else v)"

text \<open>
  The string-keyed properties of \<^verbatim>\<open>Object.prototype\<close>, which a lookup on a plain
  object finds when the object has no property of its own under the key. All of them
  are functions, except \<^verbatim>\<open>__proto__\<close>, which yields the prototype object.
\<close>

definition object_prototype_keys :: "string list" where
  "object_prototype_keys =
     [''constructor'', ''hasOwnProperty'', ''isPrototypeOf'', ''propertyIsEnumerable'',
      ''toLocaleString'', ''toString'', ''valueOf'', ''__proto__'',
      ''__defineGetter__'', ''__defineSetter__'', ''__lookupGetter__'',
      ''__lookupSetter__'']"

text \<open>\<^verbatim>\<open>obj[key]\<close>: own properties first, then the prototype.\<close>

definition get_property :: "(string \<times> real) list \<Rightarrow> string \<Rightarrow> jsval" where
  "get_property obj key =
     (case map_of obj key of
        Some v \<Rightarrow> Number v
      | None \<Rightarrow> if key \<in> set object_prototype_keys then Inherited else Undefined)"

text \<open>
  \<^verbatim>\<open>a || b\<close> on such a value: \<^verbatim>\<open>undefined\<close> and \<open>0\<close> are falsy, every
  function and object is truthy.
\<close>

fun truthy :: "jsval \<Rightarrow> bool" where
  "truthy Undefined = False"
| "truthy (Number v) = (v \<noteq> 0)"
| "truthy Inherited = True"

definition js_or_value :: "jsval \<Rightarrow> jsval \<Rightarrow> jsval" where
  "js_or_value a b = (if truthy a then a else b)"

text \<open>
  The operand conversion of \<^verbatim>\<open>*\<close>: a number is itself, and \<^verbatim>\<open>undefined\<close>, a
  function and a plain object all convert to \<^verbatim>\<open>NaN\<close>.
\<close>

fun to_number :: "jsval \<Rightarrow> jsnum" where
  "to_number (Number v) = Fin v"
| "to_number Undefined = NaN"
| "to_number Inherited = NaN"

text \<open>\<^verbatim>\<open>simulationResult.find(r => r.year === inheritanceYear)\<close>\<close>

definition targetResult :: "SimulationResult list \<Rightarrow> int \<Rightarrow> SimulationResult option" where
  "targetResult simulationResult inheritanceYear =
     find (\<lambda>r. year r = inheritanceYear) simulationResult"

text \<open>
  \<^verbatim>\<open>inheritanceYear - (profile.spouse_birth_year || profile.birth_year)\<close> and
  \<^verbatim>\<open>Math.max(0, spouseLifeExpectancyAge - spouseAgeAtInheritance)\<close>, as computed
  inside the pension valuation.
\<close>

definition spouseAgeAtInheritance :: "UserProfile \<Rightarrow> int \<Rightarrow> int" where
  "spouseAgeAtInheritance profile inheritanceYear =
     inheritanceYear - js_or (spouse_birth_year profile) (birth_year profile)"

definition remainingLifeExpectancy :: "UserProfile \<Rightarrow> int \<Rightarrow> int \<Rightarrow> int" where
  "remainingLifeExpectancy profile inheritanceYear spouseLifeExpectancyAge =
     max 0 (spouseLifeExpectancyAge - spouseAgeAtInheritance profile inheritanceYear)"

text \<open>
  The PV factor of the pension valuation: \<^verbatim>\<open>r = interestRate / 100\<close>, then
  \<^verbatim>\<open>n\<close> if \<^verbatim>\<open>r === 0\<close> and \<^verbatim>\<open>(1 - Math.pow(1 + r, -n)) / r\<close> otherwise.
  \<^verbatim>\<open>Math.pow\<close> with a whole exponent is \<open>powi\<close>. The two differ at the base
  \<open>0\<close> with a negative exponent only (an interest rate of \<open>-100\<close>), where
  JavaScript gives \<^verbatim>\<open>Infinity\<close>.
\<close>

definition pvFactor :: "real \<Rightarrow> int \<Rightarrow> real" where
  "pvFactor interestRate n =
     (let r = interestRate / 100
      in if r = 0 then of_int n else (1 - (1 + r) powi (- n)) / r)"

text \<open>The pension table (PV method); an absent target year gives the empty list.\<close>

definition pensionValuations ::
  "SimulationResult option \<Rightarrow> UserProfile \<Rightarrow> Pension list \<Rightarrow> int \<Rightarrow> real \<Rightarrow> int \<Rightarrow> real
     \<Rightarrow> pension_valuation list" where
  "pensionValuations target profile pensions inheritanceYear interestRate
       spouseLifeExpectancyAge calculationExchangeRate =
     (case target of
        None \<Rightarrow> []
      | Some tr \<Rightarrow>
          let n = remainingLifeExpectancy profile inheritanceYear spouseLifeExpectancyAge;
              pvf = pvFactor interestRate n
          in map (\<lambda>pension.
                let annual =
                      js_or_value (get_property (pension_incomes tr) (name pension))
                        (Number 0);
                    usd = to_number annual * Fin pvf;
                    jpy = usd * Fin calculationExchangeRate
                in \<lparr>name = name pension, valuationUSD = usd, valuationJPY = jpy,
                    annualAmountUSD = annual\<rparr>) pensions)"

text \<open>
  The earlier version of the component has the pension table only, under the name
  \<^verbatim>\<open>valuations\<close>, and converts with the \<^verbatim>\<open>exchangeRate\<close> property.
\<close>

definition valuations ::
  "SimulationResult option \<Rightarrow> UserProfile \<Rightarrow> Pension list \<Rightarrow> int \<Rightarrow> real \<Rightarrow> int \<Rightarrow> real
     \<Rightarrow> pension_valuation list" where
  "valuations target profile pensions inheritanceYear interestRate
       spouseLifeExpectancyAge exchangeRate =
     (case target of
        None \<Rightarrow> []
      | Some tr \<Rightarrow>
          let n = remainingLifeExpectancy profile inheritanceYear spouseLifeExpectancyAge;
              pvf = pvFactor interestRate n
          in map (\<lambda>pension.
                let annual =
                      js_or_value (get_property (pension_incomes tr) (name pension))
                        (Number 0);
                    usd = to_number annual * Fin pvf;
                    jpy = usd * Fin exchangeRate
                in \<lparr>name = name pension, valuationUSD = usd, valuationJPY = jpy,
                    annualAmountUSD = annual\<rparr>) pensions)"

text \<open>
  The asset table (balance method): empty when the target year or its
  \<^verbatim>\<open>asset_balances\<close> is absent, else one row per entry.
\<close>

definition assetValuations :: "SimulationResult option \<Rightarrow> real \<Rightarrow> asset_valuation list" where
  "assetValuations target calculationExchangeRate =
     (case target of
        None \<Rightarrow> []
      | Some tr \<Rightarrow>
          (case asset_balances tr of
             None \<Rightarrow> []
           | Some balances \<Rightarrow>
               map (\<lambda>(nm, bal).
                 let jpy = Fin bal * Fin calculationExchangeRate
                 in \<lparr>name = nm, valuationUSD = Fin bal, valuationJPY = jpy,
                     balanceUSD = bal\<rparr>) balances))"

text \<open>The values of the component body that the parameter panel shows.\<close>

definition spouseAge :: "UserProfile \<Rightarrow> int \<Rightarrow> int" where
  "spouseAge profile inheritanceYear =
     inheritanceYear - js_or (spouse_birth_year profile) (birth_year profile)"

definition remainingYears :: "UserProfile \<Rightarrow> int \<Rightarrow> int \<Rightarrow> int" where
  "remainingYears profile inheritanceYear spouseLifeExpectancyAge =
     max 0 (spouseLifeExpectancyAge - spouseAge profile inheritanceYear)"

text \<open>
  The PV factor of the parameter panel, before \<^verbatim>\<open>toFixed(3)\<close> formats it: it
  branches on \<^verbatim>\<open>interestRate > 0\<close>, where the pension valuation branches on
  \<^verbatim>\<open>r === 0\<close>. Over the reals the two tests agree for a rate that is not
  negative. In doubles they do not: a rate between \<open>0\<close> and about
  \<open>2.47 \<sqdot> 10\<^sup>-\<^sup>3\<^sup>2\<^sup>2\<close> is positive while its hundredth rounds to \<open>0\<close>, and
  the panel then divides \<open>0\<close> by \<open>0\<close>. The exact quotient of this model does not
  show that case.
\<close>

definition pvFactorShown :: "real \<Rightarrow> int \<Rightarrow> real" where
  "pvFactorShown interestRate n =
     (if interestRate > 0
      then (1 - (1 + interestRate / 100) powi (- n)) / (interestRate / 100)
      else of_int n)"

text \<open>\<^verbatim>\<open>rows.reduce((sum, v) => sum + v.valuationJPY, 0)\<close>\<close>

definition totalJPY :: "('a valuation_scheme) list \<Rightarrow> jsnum" where
  "totalJPY rows = foldl (\<lambda>sum v. sum + valuationJPY v) 0 rows"

definition exemptionLimit :: "int \<Rightarrow> int" where
  "exemptionLimit numberOfHeirs = 5000000 * numberOfHeirs"

text \<open>
  The whole component, from its properties and its state. The source has no
  \<^verbatim>\<open>throw\<close> and no early exit from the component: every call renders.
\<close>

definition InheritanceCalculator ::
  "SimulationResult list \<Rightarrow> UserProfile \<Rightarrow> Pension list \<Rightarrow> int \<Rightarrow> real \<Rightarrow> int \<Rightarrow> int \<Rightarrow> real
     \<Rightarrow> error + report" where
  "InheritanceCalculator simulationResult profile pensions inheritanceYear interestRate
       spouseLifeExpectancyAge numberOfHeirs calculationExchangeRate =
     (let target = targetResult simulationResult inheritanceYear;
          prows = pensionValuations target profile pensions inheritanceYear interestRate
                    spouseLifeExpectancyAge calculationExchangeRate;
          arows = assetValuations target calculationExchangeRate;
          totalPensionValuationJPY = totalJPY prows;
          totalAssetValuationJPY = totalJPY arows;
          totalValuationJPY = totalPensionValuationJPY + totalAssetValuationJPY
      in Inr \<lparr>shown_spouse_age = spouseAge profile inheritanceYear,
              shown_remaining_years =
                remainingYears profile inheritanceYear spouseLifeExpectancyAge,
              shown_pv_factor =
                pvFactorShown interestRate
                  (remainingYears profile inheritanceYear spouseLifeExpectancyAge),
              exemption_limit = exemptionLimit numberOfHeirs,
              rows_pension = prows,
              subtotal_pension_JPY = totalPensionValuationJPY,
              rows_asset = arows,
              subtotal_asset_JPY = totalAssetValuationJPY,
              grand_total_JPY = totalValuationJPY\<rparr>)"

section \<open>A sample household\<close>

text \<open>
  The example scenario of the specification (born 1975, a Social Security pension of
  2000 USD a month from age 67, a 401k, 150 JPY to the dollar), with a second pension
  that the simulated year does not list.
\<close>

abbreviation example_profile :: UserProfile where
  "example_profile \<equiv>
     \<lparr>birth_year = 1975, life_expectancy = 95, retirement_age = 65,
      spouse_birth_year = Some 1975\<rparr>"

abbreviation example_pensions :: "Pension list" where
  "example_pensions \<equiv>
     [\<lparr>name = ''SocialSecurity'', pension_id = None, currency = ''USD'',
       monthly_amount_estimated = 2000, start_age = 67, is_inflation_adjusted = False\<rparr>,
      \<lparr>name = ''Nenkin'', pension_id = None, currency = ''JPY'',
       monthly_amount_estimated = 60000, start_age = 65, is_inflation_adjusted = True\<rparr>]"

abbreviation earlier_result :: SimulationResult where
  "earlier_result \<equiv>
     \<lparr>year = 2034, age = 59, total_assets = 140000,
      pension_incomes = [(''SocialSecurity'', 12000), (''Nenkin'', 3000)],
      asset_balances = Some [(''Fidelity 401k'', 140000), (''Savings'', 500)],
      asset_drawdowns = None\<rparr>"

abbreviation example_result :: SimulationResult where
  "example_result \<equiv>
     \<lparr>year = 2035, age = 60, total_assets = 150000,
      pension_incomes = [(''SocialSecurity'', 24000)],
      asset_balances = Some [(''Fidelity 401k'', 150000)],
      asset_drawdowns = None\<rparr>"

text \<open>
  The valuation for 2035 at 25 percent interest, spouse life expectancy 62, two heirs:
  two years remain, the PV factor is \<open>(1 - 1.25\<^sup>-\<^sup>2) / 0.25 = 1.44\<close>.
\<close>

abbreviation example_report :: "real \<Rightarrow> report" where
  "example_report rate \<equiv>
     \<lparr>shown_spouse_age = 60, shown_remaining_years = 2, shown_pv_factor = 36 / 25,
      exemption_limit = 10000000,
      rows_pension =
        [\<lparr>name = ''SocialSecurity'', valuationUSD = Fin 34560,
          valuationJPY = Fin (34560 * rate), annualAmountUSD = Number 24000\<rparr>,
         \<lparr>name = ''Nenkin'', valuationUSD = Fin 0, valuationJPY = Fin 0,
          annualAmountUSD = Number 0\<rparr>],
      subtotal_pension_JPY = Fin (34560 * rate),
      rows_asset =
        [\<lparr>name = ''Fidelity 401k'', valuationUSD = Fin 150000,
          valuationJPY = Fin (150000 * rate), balanceUSD = 150000\<rparr>],
      subtotal_asset_JPY = Fin (150000 * rate),
      grand_total_JPY = Fin (184560 * rate)\<rparr>"

section \<open>Auxiliary facts\<close>

lemma jsnum_plus [simp]:
  "Fin x + Fin y = Fin (x + y)" "NaN + a = NaN" "a + NaN = NaN"
  by (simp_all add: plus_jsnum_def split: jsnum.splits)

lemma jsnum_times [simp]:
  "Fin x * Fin y = Fin (x * y)" "NaN * a = NaN" "a * NaN = NaN"
  by (simp_all add: times_jsnum_def split: jsnum.splits)

lemma foldl_add_sum_list:
  "foldl (\<lambda>sum v. sum + f v) (a::jsnum) xs = a + sum_list (map f xs)"
  by (induction xs arbitrary: a) (simp_all add: add.assoc)

lemma totalJPY_sum_list: "totalJPY rows = sum_list (map valuationJPY rows)"
  by (simp add: totalJPY_def foldl_add_sum_list)

lemma valuations_eq_pensionValuations: "valuations = pensionValuations"
  by (intro ext) (simp add: valuations_def pensionValuations_def)

lemma spouseAge_eq: "spouseAge = spouseAgeAtInheritance"
  by (intro ext) (simp add: spouseAge_def spouseAgeAtInheritance_def)

lemma remainingYears_eq: "remainingYears = remainingLifeExpectancy"
  by (intro ext) (simp add: remainingYears_def remainingLifeExpectancy_def spouseAge_eq)

text \<open>
  The year that is looked up: \<^verbatim>\<open>find\<close> yields the first element of the series with
  the requested year, and nothing else.
\<close>

lemma targetResult_absent:
  "y \<notin> set (map year series) \<Longrightarrow> targetResult series y = None"
  by (auto simp: targetResult_def find_None_iff)

lemma targetResult_first:
  assumes "series = earlier @ tr # later" and "y \<notin> set (map year earlier)"
    and "year tr = y"
  shows "targetResult series y = Some tr"
  using assms
  by (induction earlier arbitrary: series) (auto simp: targetResult_def)

lemma targetResult_Some:
  assumes "targetResult series y = Some tr"
  shows "year tr = y \<and> tr \<in> set series"
  using assms
  by (auto simp: targetResult_def find_Some_iff in_set_conv_nth)

text \<open>
  The lookup with its fallback: the stored amount, or \<open>0\<close>, unless the name is not
  listed and is one that every object inherits.
\<close>

lemma js_or_value_not_inherited:
  assumes "get_property obj key \<noteq> Inherited"
  shows "js_or_value (get_property obj key) (Number 0) =
     Number (case map_of obj key of None \<Rightarrow> 0 | Some v \<Rightarrow> v)"
  using assms
  by (auto simp: js_or_value_def get_property_def split: option.splits if_splits)

lemma get_property_inherited_iff:
  "get_property obj key = Inherited \<longleftrightarrow>
     map_of obj key = None \<and> key \<in> set object_prototype_keys"
  by (simp add: get_property_def split: option.splits)

lemma pensionValuations_length:
  "length (pensionValuations (Some tr) profile pensions y ir sle rate) = length pensions"
  by (simp add: pensionValuations_def Let_def)

lemma pensionValuations_nth:
  assumes "i < length pensions"
  shows "pensionValuations (Some tr) profile pensions y ir sle rate ! i =
     \<lparr>name = name (pensions ! i),
      valuationUSD =
        to_number (js_or_value (get_property (pension_incomes tr) (name (pensions ! i)))
                     (Number 0))
          * Fin (pvFactor ir (remainingLifeExpectancy profile y sle)),
      valuationJPY =
        to_number (js_or_value (get_property (pension_incomes tr) (name (pensions ! i)))
                     (Number 0))
          * Fin (pvFactor ir (remainingLifeExpectancy profile y sle)) * Fin rate,
      annualAmountUSD =
        js_or_value (get_property (pension_incomes tr) (name (pensions ! i))) (Number 0)\<rparr>"
  using assms by (simp add: pensionValuations_def Let_def)

lemma pensionValuations_linear:
  "map valuationJPY (pensionValuations target profile pensions y ir sle rate) =
   map (\<lambda>row. valuationUSD row * Fin rate)
     (pensionValuations target profile pensions y ir sle rate)"
  by (cases target) (simp_all add: pensionValuations_def Let_def)

lemma assetValuations_length:
  "asset_balances tr = Some balances \<Longrightarrow>
   length (assetValuations (Some tr) rate) = length balances"
  by (simp add: assetValuations_def)

lemma assetValuations_nth:
  assumes "asset_balances tr = Some balances" "i < length balances"
  shows "assetValuations (Some tr) rate ! i =
     \<lparr>name = fst (balances ! i), valuationUSD = Fin (snd (balances ! i)),
      valuationJPY = Fin (snd (balances ! i) * rate), balanceUSD = snd (balances ! i)\<rparr>"
  using assms by (simp add: assetValuations_def Let_def case_prod_beta)

lemma assetValuations_linear:
  "map valuationJPY (assetValuations target rate) =
   map (\<lambda>row. valuationUSD row * Fin rate) (assetValuations target rate)"
  by (auto simp: assetValuations_def Let_def case_prod_beta split: option.splits)

lemma rows_pension_eq:
  "InheritanceCalculator series profile pensions y ir sle heirs rate = Inr rep \<Longrightarrow>
   rows_pension rep = pensionValuations (targetResult series y) profile pensions y ir sle rate"
  by (auto simp: InheritanceCalculator_def Let_def)

lemma rows_asset_eq:
  "InheritanceCalculator series profile pensions y ir sle heirs rate = Inr rep \<Longrightarrow>
   rows_asset rep = assetValuations (targetResult series y) rate"
  by (auto simp: InheritanceCalculator_def Let_def)

lemma example_pvFactor: "pvFactor 25 2 = 36 / 25"
  by (simp add: pvFactor_def power_int_minus field_simps)

lemma example_remaining: "remainingLifeExpectancy example_profile 2035 62 = 2"
  by (simp add: remainingLifeExpectancy_def spouseAgeAtInheritance_def js_or_def)

lemma example_run:
  "InheritanceCalculator [example_result] example_profile example_pensions 2035 25 62 2 rate
     = Inr (example_report rate)"
  by (simp add: InheritanceCalculator_def targetResult_def pensionValuations_def
        assetValuations_def example_remaining remainingYears_eq js_or_def
        spouseAge_def get_property_def js_or_value_def object_prototype_keys_def
        example_pvFactor pvFactorShown_def totalJPY_def exemptionLimit_def
        zero_jsnum_def power_int_minus Let_def power2_eq_square)

text \<open>The same valuation on a series of two years, the chosen year coming second.\<close>

lemma example_series_run:
  "InheritanceCalculator [earlier_result, example_result] example_profile example_pensions
       2035 25 62 2 rate
     = Inr (example_report rate)"
  by (simp add: InheritanceCalculator_def targetResult_def pensionValuations_def
        assetValuations_def example_remaining remainingYears_eq js_or_def
        spouseAge_def get_property_def js_or_value_def object_prototype_keys_def
        example_pvFactor pvFactorShown_def totalJPY_def exemptionLimit_def
        zero_jsnum_def power_int_minus Let_def power2_eq_square)

text \<open>
  The pension table on the names that behave: for a pension whose name the chosen year
  lists, or that no object inherits, the row holds the stored amount (\<open>0\<close> when the
  name is absent), that amount times the PV factor, and that product times the
  exchange rate.
\<close>

lemma pension_rows_not_inherited:
  assumes "series = earlier @ tr # later" and "y \<notin> set (map year earlier)"
    and "year tr = y"
    and "InheritanceCalculator series profile pensions y ir sle heirs rate = Inr rep"
    and "i < length pensions"
    and "get_property (pension_incomes tr) (name (pensions ! i)) \<noteq> Inherited"
  shows "length (rows_pension rep) = length pensions
     \<and> name (rows_pension rep ! i) = name (pensions ! i)
     \<and> annualAmountUSD (rows_pension rep ! i) =
         Number (case map_of (pension_incomes tr) (name (pensions ! i)) of
                   None \<Rightarrow> 0 | Some v \<Rightarrow> v)
     \<and> valuationUSD (rows_pension rep ! i) =
         to_number (annualAmountUSD (rows_pension rep ! i))
           * Fin (pvFactor ir (remainingLifeExpectancy profile y sle))
     \<and> valuationJPY (rows_pension rep ! i) = valuationUSD (rows_pension rep ! i) * Fin rate
     \<and> valuations (Some tr) profile pensions y ir sle rate = rows_pension rep"
proof -
  have "targetResult series y = Some tr"
    using assms(1-3) by (rule targetResult_first)
  with assms(4) have rows:
    "rows_pension rep = pensionValuations (Some tr) profile pensions y ir sle rate"
    by (simp add: rows_pension_eq)
  show ?thesis
    using assms(5) js_or_value_not_inherited [OF assms(6)]
    by (simp add: rows pensionValuations_length pensionValuations_nth
          valuations_eq_pensionValuations)
qed

lemma pension_rows_inherited:
  assumes "series = earlier @ tr # later" and "y \<notin> set (map year earlier)"
    and "year tr = y"
    and "InheritanceCalculator series profile pensions y ir sle heirs rate = Inr rep"
    and "i < length pensions"
    and "map_of (pension_incomes tr) (name (pensions ! i)) = None"
    and "name (pensions ! i) \<in> set object_prototype_keys"
  shows "annualAmountUSD (rows_pension rep ! i) = Inherited
     \<and> valuationUSD (rows_pension rep ! i) = NaN
     \<and> valuationJPY (rows_pension rep ! i) = NaN"
proof -
  have "targetResult series y = Some tr"
    using assms(1-3) by (rule targetResult_first)
  with assms(4) have rows:
    "rows_pension rep = pensionValuations (Some tr) profile pensions y ir sle rate"
    by (simp add: rows_pension_eq)
  have "get_property (pension_incomes tr) (name (pensions ! i)) = Inherited"
    using assms(6,7) by (simp add: get_property_inherited_iff)
  then show ?thesis
    using assms(5)
    by (simp add: rows pensionValuations_nth js_or_value_def)
qed

text \<open>
  The closed form is the ordinary-annuity factor: the value today of \<open>n\<close> yearly
  payments of one unit, each discounted at the rate \<open>r\<close>.
\<close>

lemma annuity_step:
  fixes x q :: real
  assumes "1 < x" "0 < q"
  shows "(1 - inverse (x * q)) / (x - 1) = (1 - inverse q) / (x - 1) + 1 / (x * q)"
proof -
  have "x \<noteq> 0" "q \<noteq> 0" "x - 1 \<noteq> 0" using assms by auto
  then show ?thesis by (simp add: divide_simps) (simp add: algebra_simps)
qed

lemma annuity_sum_nat:
  fixes x :: real
  assumes "1 < x"
  shows "(1 - inverse (x ^ m)) / (x - 1) = (\<Sum>k = 1..m. 1 / x ^ k)"
proof (induction m)
  case 0
  show ?case by simp
next
  case (Suc m)
  have "0 < x ^ m" using assms by simp
  with annuity_step [OF assms, of "x ^ m"] Suc show ?case by simp
qed

lemma pvFactor_annuity_sum:
  assumes "0 \<le> interestRate" "0 \<le> n"
  shows "pvFactor interestRate n = (\<Sum>k = 1..nat n. 1 / (1 + interestRate / 100) ^ k)"
proof (cases "interestRate = 0")
  case True
  then show ?thesis using assms by (simp add: pvFactor_def)
next
  case False
  with assms have r: "1 < 1 + interestRate / 100" by simp
  have "(1 + interestRate / 100) powi (- n) = inverse ((1 + interestRate / 100) ^ nat n)"
    using assms by (simp add: power_int_minus power_int_def power_inverse)
  then show ?thesis
    using annuity_sum_nat [OF r, of "nat n"] False by (simp add: pvFactor_def Let_def)
qed

section \<open>The present-value factor\<close>

text \<open>
  C1 (amended). For every interest rate \<open>\<ge> 0\<close> and every whole number of remaining
  years \<open>n \<ge> 0\<close>, the PV factor of the pension valuation is \<open>n\<close> when
  \<open>r = interestRate / 100\<close> is \<open>0\<close> and \<open>(1 - (1 + r)\<^sup>-\<^sup>n) / r\<close> otherwise. At 5
  percent and ten years it is within \<open>10\<^sup>-\<^sup>6\<close> of \<open>7.721735\<close>, hence within
  \<open>10\<^sup>-\<^sup>4\<close> of \<open>7.7217\<close>.
\<close>

theorem pvFactor_closed_form:
  assumes "0 \<le> interestRate" and "0 \<le> n"
  shows "pvFactor interestRate n =
       (if interestRate / 100 = 0 then of_int n
        else (1 - (1 + interestRate / 100) powr (- of_int n)) / (interestRate / 100))
     \<and> \<bar>pvFactor 5 10 - 7.721735\<bar> \<le> 1 / 10 ^ 6
     \<and> \<bar>pvFactor 5 10 - 7.7217\<bar> \<le> 1 / 10 ^ 4"
proof (intro conjI)
  show "pvFactor interestRate n =
       (if interestRate / 100 = 0 then of_int n
        else (1 - (1 + interestRate / 100) powr (- of_int n)) / (interestRate / 100))"
    using assms
    by (auto simp: pvFactor_def Let_def powr_real_of_int' power_int_minus powr_minus)
  show "\<bar>pvFactor 5 10 - 7.721735\<bar> \<le> 1 / 10 ^ 6"
    by (simp add: pvFactor_def power_int_minus field_simps)
  show "\<bar>pvFactor 5 10 - 7.7217\<bar> \<le> 1 / 10 ^ 4"
    by (simp add: pvFactor_def power_int_minus field_simps)
qed

theorem pvFactor_closed_form_witness:
  "(0::real) \<le> 25 \<and> (0::int) \<le> 2 \<and>
   pvFactor 25 2 = (1 - (1 + 25 / 100) powr (- of_int 2)) / (25 / 100) \<and>
   pvFactor 25 2 = 36 / 25"
  using pvFactor_closed_form [of 25 2] by (simp add: example_pvFactor)

text \<open>
  The specification's tolerance of \<open>10\<^sup>-\<^sup>6\<close> does not hold around \<open>7.7217\<close>:
  the factor is \<open>7.7217349...\<close>, more than \<open>3 \<sqdot> 10\<^sup>-\<^sup>5\<close> away.
\<close>

theorem pvFactor_five_percent_ten_years_counterexample:
  "\<not> \<bar>pvFactor 5 10 - 7.7217\<bar> \<le> 1 / 10 ^ 6"
  by (simp add: pvFactor_def power_int_minus field_simps)

section \<open>The remaining duration\<close>

text \<open>
  C6 (amended). The remaining annuity duration is
  \<open>max 0 (spouseLifeExpectancyAge - (inheritanceYear - b))\<close>, where \<open>b\<close> is
  \<^verbatim>\<open>spouse_birth_year\<close>, or \<^verbatim>\<open>birth_year\<close> when \<^verbatim>\<open>spouse_birth_year\<close> is absent
  or \<open>0\<close>. The panel's \<^verbatim>\<open>remainingYears\<close> is the same number, and it is never
  negative.
\<close>

theorem remainingLifeExpectancy_clamped:
  "remainingLifeExpectancy profile y sle =
     max 0 (sle - (y - (case spouse_birth_year profile of
                          None \<Rightarrow> birth_year profile
                        | Some s \<Rightarrow> if s = 0 then birth_year profile else s)))
   \<and> remainingYears profile y sle = remainingLifeExpectancy profile y sle
   \<and> 0 \<le> remainingLifeExpectancy profile y sle"
  by (simp add: remainingYears_eq remainingLifeExpectancy_def spouseAgeAtInheritance_def
        js_or_def split: option.splits)

theorem remainingLifeExpectancy_clamped_witness:
  "remainingLifeExpectancy example_profile 2070 87 = max 0 (87 - (2070 - 1975)) \<and>
   remainingYears example_profile 2070 87 = 0 \<and>
   remainingLifeExpectancy example_profile 2070 87 = 0"
  using remainingLifeExpectancy_clamped [of example_profile 2070 87] by simp

text \<open>
  With a \<^verbatim>\<open>spouse_birth_year\<close> that is present and \<open>0\<close> the code falls back to
  \<^verbatim>\<open>birth_year\<close>: 27 years remain, where the formula on \<^verbatim>\<open>spouse_birth_year\<close>
  itself gives none.
\<close>

theorem remainingLifeExpectancy_zero_spouse_year_counterexample:
  "remainingLifeExpectancy
     \<lparr>birth_year = 1975, life_expectancy = 95, retirement_age = 65,
      spouse_birth_year = Some 0\<rparr> 2035 87 = 27
   \<and> max 0 (87 - (2035 - 0)) = (0::int)"
  by (simp add: remainingLifeExpectancy_def spouseAgeAtInheritance_def js_or_def)

text \<open>
  C10. When \<^verbatim>\<open>spouse_birth_year\<close> is present and \<open>0\<close>, the spouse's age at
  inheritance is computed from \<^verbatim>\<open>birth_year\<close>, exactly as when
  \<^verbatim>\<open>spouse_birth_year\<close> is absent: in the pension valuation, in the component body,
  in the earlier version's table, and so in everything the component shows.
\<close>

theorem zero_spouse_birth_year_falls_back:
  assumes "spouse_birth_year profile = Some 0"
  shows "spouseAgeAtInheritance profile y = y - birth_year profile
     \<and> spouseAgeAtInheritance profile y =
         spouseAgeAtInheritance (profile\<lparr>spouse_birth_year := None\<rparr>) y
     \<and> spouseAge profile y = spouseAge (profile\<lparr>spouse_birth_year := None\<rparr>) y
     \<and> valuations target profile pensions y ir sle rate =
         valuations target (profile\<lparr>spouse_birth_year := None\<rparr>) pensions y ir sle rate
     \<and> InheritanceCalculator series profile pensions y ir sle heirs rate =
         InheritanceCalculator series (profile\<lparr>spouse_birth_year := None\<rparr>) pensions y ir sle
           heirs rate"
proof -
  let ?p = "profile\<lparr>spouse_birth_year := None\<rparr>"
  have age: "spouseAgeAtInheritance profile = spouseAgeAtInheritance ?p"
    using assms by (intro ext) (simp add: spouseAgeAtInheritance_def js_or_def)
  have rem: "remainingLifeExpectancy profile = remainingLifeExpectancy ?p"
    by (intro ext) (simp add: remainingLifeExpectancy_def age)
  have rows: "pensionValuations t profile = pensionValuations t ?p" for t
    by (intro ext) (simp add: pensionValuations_def rem cong: option.case_cong)
  have "spouseAgeAtInheritance profile y = y - birth_year profile"
    using assms by (simp add: spouseAgeAtInheritance_def js_or_def)
  moreover have "InheritanceCalculator series profile pensions y ir sle heirs rate =
      InheritanceCalculator series ?p pensions y ir sle heirs rate"
    by (simp add: InheritanceCalculator_def rows spouseAge_eq remainingYears_eq age rem)
  ultimately show ?thesis
    by (simp add: age rows spouseAge_eq valuations_eq_pensionValuations)
qed

theorem zero_spouse_birth_year_falls_back_witness:
  "spouse_birth_year (example_profile\<lparr>spouse_birth_year := Some 0\<rparr>) = Some 0 \<and>
   spouseAgeAtInheritance (example_profile\<lparr>spouse_birth_year := Some 0\<rparr>) 2035 = 60 \<and>
   spouseAgeAtInheritance (example_profile\<lparr>spouse_birth_year := None\<rparr>) 2035 = 60 \<and>
   spouseAge (example_profile\<lparr>spouse_birth_year := Some 0\<rparr>) 2035 = 60 \<and>
   InheritanceCalculator [example_result] (example_profile\<lparr>spouse_birth_year := Some 0\<rparr>)
       example_pensions 2035 25 62 2 150 =
     InheritanceCalculator [example_result] (example_profile\<lparr>spouse_birth_year := None\<rparr>)
       example_pensions 2035 25 62 2 150"
  using zero_spouse_birth_year_falls_back
          [of "example_profile\<lparr>spouse_birth_year := Some 0\<rparr>" 2035 "Some example_result"
              example_pensions 25 62 150 "[example_result]" 2]
  by (simp add: spouseAgeAtInheritance_def spouseAge_def js_or_def)

section \<open>The valuation tables\<close>

text \<open>
  C3. For every pension of the input list, the row for the chosen year should hold as
  \<^verbatim>\<open>annualAmountUSD\<close> the value stored under the pension's name in that year's
  \<^verbatim>\<open>pension_incomes\<close>, and \<open>0\<close> when the name is absent. The component misses
  this for a name that the year does not list and that every object inherits: for a
  pension called \<^verbatim>\<open>constructor\<close> the lookup finds the inherited function, which is
  truthy, so the fallback to \<open>0\<close> is not taken; the amount is not a number and both
  valuations, the pension subtotal and the grand total are \<^verbatim>\<open>NaN\<close>.
\<close>

theorem pension_named_constructor_is_not_zero:
  "map_of (pension_incomes example_result) ''constructor'' = None
   \<and> InheritanceCalculator [earlier_result, example_result] example_profile
       [\<lparr>name = ''constructor'', pension_id = None, currency = ''USD'',
         monthly_amount_estimated = 500, start_age = 65, is_inflation_adjusted = False\<rparr>]
       2035 25 62 2 150 =
     Inr \<lparr>shown_spouse_age = 60, shown_remaining_years = 2, shown_pv_factor = 36 / 25,
          exemption_limit = 10000000,
          rows_pension =
            [\<lparr>name = ''constructor'', valuationUSD = NaN, valuationJPY = NaN,
              annualAmountUSD = Inherited\<rparr>],
          subtotal_pension_JPY = NaN,
          rows_asset =
            [\<lparr>name = ''Fidelity 401k'', valuationUSD = Fin 150000,
              valuationJPY = Fin 22500000, balanceUSD = 150000\<rparr>],
          subtotal_asset_JPY = Fin 22500000,
          grand_total_JPY = NaN\<rparr>"
  by (simp add: InheritanceCalculator_def targetResult_def pensionValuations_def
        assetValuations_def example_remaining remainingYears_eq js_or_def
        spouseAge_def get_property_def js_or_value_def object_prototype_keys_def
        example_pvFactor pvFactorShown_def totalJPY_def exemptionLimit_def
        zero_jsnum_def power_int_minus Let_def power2_eq_square)

text \<open>
  C4. When the chosen year is in the series and its result has \<^verbatim>\<open>asset_balances\<close>,
  the asset table has one row per entry \<open>(name, balance)\<close> of that result, in order:
  its valuation in USD is the balance itself, with no discount, and its valuation in
  JPY is the balance times the exchange rate. The result of the chosen year is the
  first element of the series that has the year.
\<close>

theorem asset_rows:
  assumes "series = earlier @ tr # later" and "y \<notin> set (map year earlier)"
    and "year tr = y"
    and "asset_balances tr = Some balances"
    and "InheritanceCalculator series profile pensions y ir sle heirs rate = Inr rep"
    and "i < length balances"
  shows "length (rows_asset rep) = length balances
     \<and> name (rows_asset rep ! i) = fst (balances ! i)
     \<and> balanceUSD (rows_asset rep ! i) = snd (balances ! i)
     \<and> valuationUSD (rows_asset rep ! i) = Fin (snd (balances ! i))
     \<and> valuationJPY (rows_asset rep ! i) = Fin (snd (balances ! i) * rate)"
proof -
  have "targetResult series y = Some tr"
    using assms(1-3) by (rule targetResult_first)
  with assms(5) have "rows_asset rep = assetValuations (Some tr) rate"
    by (simp add: rows_asset_eq)
  then show ?thesis
    using assms(4,6) by (simp add: assetValuations_length assetValuations_nth)
qed

theorem asset_rows_witness:
  "[earlier_result, example_result] = [earlier_result] @ example_result # []
   \<and> 2035 \<notin> set (map year [earlier_result])
   \<and> year example_result = 2035
   \<and> asset_balances example_result = Some [(''Fidelity 401k'', 150000)]
   \<and> InheritanceCalculator [earlier_result, example_result] example_profile
       example_pensions 2035 25 62 2 150 = Inr (example_report 150)
   \<and> (0::nat) < length [(''Fidelity 401k'', 150000::real)]
   \<and> length (rows_asset (example_report 150)) = 1
   \<and> name (rows_asset (example_report 150) ! 0) = ''Fidelity 401k''
   \<and> balanceUSD (rows_asset (example_report 150) ! 0) = 150000
   \<and> valuationUSD (rows_asset (example_report 150) ! 0) = Fin 150000
   \<and> valuationJPY (rows_asset (example_report 150) ! 0) = Fin (150000 * 150)"
proof -
  have s: "[earlier_result, example_result] = [earlier_result] @ example_result # []"
    by simp
  have e: "2035 \<notin> set (map year [earlier_result])" by simp
  have t: "year example_result = 2035" by simp
  have b: "asset_balances example_result = Some [(''Fidelity 401k'', 150000)]" by simp
  have i: "(0::nat) < length [(''Fidelity 401k'', 150000::real)]" by simp
  show ?thesis
    using asset_rows [OF s e t b example_series_run i, of 150]
    by (simp add: example_series_run)
qed

text \<open>
  C7. The conversion to JPY is a single multiplication: in every row of the pension
  table and in every row of the asset table, \<^verbatim>\<open>valuationJPY\<close> is
  \<^verbatim>\<open>valuationUSD\<close> times the exchange rate, with nothing added and nothing rounded.
\<close>

theorem conversion_linear:
  assumes "InheritanceCalculator series profile pensions y ir sle heirs rate = Inr rep"
  shows "map valuationJPY (rows_pension rep) =
       map (\<lambda>row. valuationUSD row * Fin rate) (rows_pension rep)
     \<and> map valuationJPY (rows_asset rep) =
       map (\<lambda>row. valuationUSD row * Fin rate) (rows_asset rep)"
  using assms
  by (simp only: rows_pension_eq [OF assms] rows_asset_eq [OF assms]
        pensionValuations_linear assetValuations_linear simp_thms)

theorem conversion_linear_witness:
  "InheritanceCalculator [example_result] example_profile example_pensions 2035 25 62 2 150
       = Inr (example_report 150)
   \<and> map valuationJPY (rows_pension (example_report 150)) = [Fin (34560 * 150), Fin (0 * 150)]
   \<and> map valuationJPY (rows_asset (example_report 150)) = [Fin (150000 * 150)]"
  using conversion_linear [OF example_run, of 150] by (simp add: example_run)

section \<open>Totals\<close>

text \<open>
  C5. The grand total in JPY is the sum of the JPY valuations of all pension rows plus
  the sum of the JPY valuations of all asset rows, and the exemption limit is
  5,000,000 JPY times the number of statutory heirs.
\<close>

theorem grand_total_and_exemption_limit:
  assumes "InheritanceCalculator series profile pensions y ir sle heirs rate = Inr rep"
  shows "grand_total_JPY rep =
       sum_list (map valuationJPY (rows_pension rep))
         + sum_list (map valuationJPY (rows_asset rep))
     \<and> subtotal_pension_JPY rep = sum_list (map valuationJPY (rows_pension rep))
     \<and> subtotal_asset_JPY rep = sum_list (map valuationJPY (rows_asset rep))
     \<and> exemption_limit rep = 5000000 * heirs"
  using assms
  by (auto simp: InheritanceCalculator_def Let_def totalJPY_sum_list exemptionLimit_def)

theorem grand_total_and_exemption_limit_witness:
  "InheritanceCalculator [example_result] example_profile example_pensions 2035 25 62 2 150
       = Inr (example_report 150)
   \<and> grand_total_JPY (example_report 150) = Fin (5184000 + 22500000)
   \<and> exemption_limit (example_report 150) = 5000000 * 2"
  using grand_total_and_exemption_limit [OF example_run, of 150] by (simp add: example_run)

section \<open>Inputs the specification wants rejected\<close>

text \<open>
  C2 (amended). If no element of the series has the requested inheritance year, the
  valuation does not fail: no error is raised, both tables are empty, the pension,
  asset and grand totals are \<open>0\<close>, and the parameter panel and the exemption limit
  are computed as usual.
\<close>

theorem absent_year_empty_report:
  assumes "y \<notin> set (map year series)"
  shows "InheritanceCalculator series profile pensions y ir sle heirs rate =
     Inr \<lparr>shown_spouse_age = spouseAge profile y,
          shown_remaining_years = remainingYears profile y sle,
          shown_pv_factor = pvFactorShown ir (remainingYears profile y sle),
          exemption_limit = 5000000 * heirs,
          rows_pension = [], subtotal_pension_JPY = 0,
          rows_asset = [], subtotal_asset_JPY = 0,
          grand_total_JPY = 0\<rparr>"
  using targetResult_absent [OF assms]
  by (simp add: InheritanceCalculator_def pensionValuations_def assetValuations_def
        totalJPY_def exemptionLimit_def)

theorem absent_year_empty_report_witness:
  "2040 \<notin> set (map year [example_result])
   \<and> InheritanceCalculator [example_result] example_profile example_pensions 2040 0 87 2 150 =
     Inr \<lparr>shown_spouse_age = 65, shown_remaining_years = 22, shown_pv_factor = 22,
          exemption_limit = 10000000,
          rows_pension = [], subtotal_pension_JPY = 0,
          rows_asset = [], subtotal_asset_JPY = 0,
          grand_total_JPY = 0\<rparr>"
  using absent_year_empty_report
          [of 2040 "[example_result]" example_profile example_pensions 0 87 2 150]
  by (simp add: spouseAge_def remainingYears_def js_or_def pvFactorShown_def)

text \<open>
  The series holds the year 2035 only and the valuation is asked for 2036: the result
  is a report, not \<open>NotFound\<close>.
\<close>

theorem absent_year_counterexample:
  "targetResult [example_result] 2036 = None
   \<and> InheritanceCalculator [example_result] example_profile example_pensions 2036 25 62 2 150
       \<noteq> Inl NotFound
   \<and> InheritanceCalculator [example_result] example_profile example_pensions 2036 25 62 2 150 =
     Inr \<lparr>shown_spouse_age = 61, shown_remaining_years = 1, shown_pv_factor = 4 / 5,
          exemption_limit = 10000000,
          rows_pension = [], subtotal_pension_JPY = 0,
          rows_asset = [], subtotal_asset_JPY = 0,
          grand_total_JPY = 0\<rparr>"
  by (simp add: InheritanceCalculator_def targetResult_def pensionValuations_def
        assetValuations_def remainingYears_def spouseAge_def js_or_def pvFactorShown_def
        totalJPY_def exemptionLimit_def Let_def)




end
